theory Spec2Isabelle
  imports Complex_Main
begin

section \<open>Scalars: the element type \<^verbatim>\<open>float\<close>\<close>

text \<open>
  The tracer computes on \<^verbatim>\<open>float\<close>.  A value of the model is a real number or one of
  the three special values of IEEE 754 arithmetic: the two infinities and NaN.  The
  special values follow the IEEE rules (NaN is absorbing and compares false with
  everything, \<open>\<infinity> - \<infinity>\<close>, \<open>0 * \<infinity>\<close>, \<open>0 / 0\<close>, \<open>\<infinity> / \<infinity>\<close> and the square root of a negative
  number are NaN, a nonzero number divided by zero is an infinity).  Rounding, overflow
  of finite results and the sign of zero are not modelled: a finite operation on finite
  operands is the exact operation on the reals, and a zero divisor counts as \<open>+0\<close>
  (the only divisor in the tracer is a length, which is never \<open>-0\<close>).  The division
  \<^verbatim>\<open>/\<close> of the source is written \<open>div\<close>.

  In the model an infinity or a NaN therefore arises only from an operand that is one,
  from a division by zero or from the square root of a negative number.  In binary32
  they arise from finite operands as well: a square beyond \<open>2\<^sup>1\<^sup>2\<^sup>8\<close> is \<open>+\<infinity>\<close>, and a sum
  is rounded, so that a hit position can fall on the centre of a sphere of positive
  radius.  No statement below says that finite inputs keep the computed values finite;
  the general statements are about the tests and branches that the code takes on the
  values it has computed, and they use of the arithmetic only the comparison rules, the
  sign symmetry of sum and product, and sums and products with zero.
\<close>

datatype fl = Fin real | PInf | NInf | NaN

instantiation fl :: "{plus, minus, uminus, times, divide, ord}"
begin

fun uminus_fl :: "fl \<Rightarrow> fl" where
  "- Fin a = Fin (- a)"
| "- PInf = NInf"
| "- NInf = PInf"
| "- NaN = NaN"

fun plus_fl :: "fl \<Rightarrow> fl \<Rightarrow> fl" where
  "Fin a + Fin b = Fin (a + b)"
| "NaN + _ = NaN"
| "_ + NaN = NaN"
| "PInf + NInf = NaN"
| "NInf + PInf = NaN"
| "PInf + _ = PInf"
| "_ + PInf = PInf"
| "NInf + _ = NInf"
| "_ + NInf = NInf"

definition minus_fl :: "fl \<Rightarrow> fl \<Rightarrow> fl" where
  "a - b = a + (- b)" for a b :: fl

fun times_fl :: "fl \<Rightarrow> fl \<Rightarrow> fl" where
  "Fin a * Fin b = Fin (a * b)"
| "NaN * _ = NaN"
| "_ * NaN = NaN"
| "PInf * PInf = PInf"
| "PInf * NInf = NInf"
| "NInf * PInf = NInf"
| "NInf * NInf = PInf"
| "PInf * Fin b = (if b = 0 then NaN else if 0 < b then PInf else NInf)"
| "NInf * Fin b = (if b = 0 then NaN else if 0 < b then NInf else PInf)"
| "Fin a * PInf = (if a = 0 then NaN else if 0 < a then PInf else NInf)"
| "Fin a * NInf = (if a = 0 then NaN else if 0 < a then NInf else PInf)"

fun divide_fl :: "fl \<Rightarrow> fl \<Rightarrow> fl" where
  "Fin a div Fin b =
     (if b = 0 then (if a = 0 then NaN else if 0 < a then PInf else NInf)
      else Fin (a / b))"
| "NaN div _ = NaN"
| "_ div NaN = NaN"
| "Fin a div PInf = Fin 0"
| "Fin a div NInf = Fin 0"
| "PInf div Fin b = (if 0 \<le> b then PInf else NInf)"
| "NInf div Fin b = (if 0 \<le> b then NInf else PInf)"
| "PInf div PInf = NaN"
| "PInf div NInf = NaN"
| "NInf div PInf = NaN"
| "NInf div NInf = NaN"

fun less_fl :: "fl \<Rightarrow> fl \<Rightarrow> bool" where
  "Fin a < Fin b \<longleftrightarrow> a < b"
| "Fin a < PInf \<longleftrightarrow> True"
| "NInf < Fin b \<longleftrightarrow> True"
| "NInf < PInf \<longleftrightarrow> True"
| "(_ :: fl) < _ \<longleftrightarrow> False"

fun less_eq_fl :: "fl \<Rightarrow> fl \<Rightarrow> bool" where
  "Fin a \<le> Fin b \<longleftrightarrow> a \<le> b"
| "NaN \<le> _ \<longleftrightarrow> False"
| "_ \<le> NaN \<longleftrightarrow> False"
| "_ \<le> PInf \<longleftrightarrow> True"
| "NInf \<le> _ \<longleftrightarrow> True"
| "(_ :: fl) \<le> _ \<longleftrightarrow> False"

instance ..

end

text \<open>\<^verbatim>\<open>std::sqrt\<close> on \<^verbatim>\<open>float\<close>.\<close>

fun sqrt_fl :: "fl \<Rightarrow> fl" where
  "sqrt_fl (Fin a) = (if a < 0 then NaN else Fin (sqrt a))"
| "sqrt_fl PInf = PInf"
| "sqrt_fl NInf = NaN"
| "sqrt_fl NaN = NaN"

text \<open>\<^verbatim>\<open>std::numeric_limits<float>::epsilon()\<close>: the gap between 1 and the next float.\<close>

definition epsilon :: fl where
  "epsilon = Fin (1 / 2 ^ 23)"

section \<open>Vector algebra: \<^verbatim>\<open>vector3.hpp\<close>\<close>

text \<open>
  \<^verbatim>\<open>Vector3<float>\<close>, used as point, direction and colour.  The operators are the
  componentwise ones of the header; \<open>smul\<close> and \<open>sdiv\<close> are the vector-by-scalar
  \<^verbatim>\<open>operator*\<close> and \<^verbatim>\<open>operator/\<close>, \<open>splat\<close> the constructor from one scalar.
  The default constructor \<^verbatim>\<open>Vector3() {}\<close> initialises nothing; a variable declared
  with it holds whatever its storage held, which the model takes as a parameter where
  the tracer declares one.
\<close>

datatype vec = Vector3 (vx: fl) (vy: fl) (vz: fl)

definition splat :: "fl \<Rightarrow> vec" where
  "splat scalar = Vector3 scalar scalar scalar"

instantiation vec :: "{plus, minus, uminus, times}"
begin

definition plus_vec :: "vec \<Rightarrow> vec \<Rightarrow> vec" where
  "a + b = Vector3 (vx a + vx b) (vy a + vy b) (vz a + vz b)"

definition minus_vec :: "vec \<Rightarrow> vec \<Rightarrow> vec" where
  "a - b = Vector3 (vx a - vx b) (vy a - vy b) (vz a - vz b)"

definition times_vec :: "vec \<Rightarrow> vec \<Rightarrow> vec" where
  "a * b = Vector3 (vx a * vx b) (vy a * vy b) (vz a * vz b)"

definition uminus_vec :: "vec \<Rightarrow> vec" where
  "- a = Vector3 (- vx a) (- vy a) (- vz a)"

instance ..

end

definition smul :: "vec \<Rightarrow> fl \<Rightarrow> vec" where
  "smul v scalar = Vector3 (vx v * scalar) (vy v * scalar) (vz v * scalar)"

definition sdiv :: "vec \<Rightarrow> fl \<Rightarrow> vec" where
  "sdiv v scalar = Vector3 (vx v div scalar) (vy v div scalar) (vz v div scalar)"

text \<open>
  The member functions \<^verbatim>\<open>dot\<close>, \<^verbatim>\<open>sqr_length\<close> and \<^verbatim>\<open>length\<close> and the free functions
  of the same names are the same expressions; one definition stands for both.
\<close>

definition dot :: "vec \<Rightarrow> vec \<Rightarrow> fl" where
  "dot a b = vx a * vx b + vy a * vy b + vz a * vz b"

definition sqr_length :: "vec \<Rightarrow> fl" where
  "sqr_length v = dot v v"

definition length_v :: "vec \<Rightarrow> fl" where
  "length_v v = sqrt_fl (sqr_length v)"

definition normalized :: "vec \<Rightarrow> vec" where
  "normalized v = sdiv v (length_v v)"

definition sqr_distance :: "vec \<Rightarrow> vec \<Rightarrow> fl" where
  "sqr_distance a b = sqr_length (a - b)"

definition distance :: "vec \<Rightarrow> vec \<Rightarrow> fl" where
  "distance a b = sqrt_fl (sqr_distance a b)"

definition normalize :: "vec \<Rightarrow> vec" where
  "normalize v =
     (let len = length_v v
      in if len < epsilon then v else sdiv v len)"

section \<open>Rays, hits, objects and scenes: \<^verbatim>\<open>main.cc\<close>\<close>

record ray =
  org :: vec
  dir :: vec

text \<open>
  The only \<^verbatim>\<open>Object\<close> is the \<^verbatim>\<open>Sphere\<close>.  Objects are never modified after
  construction, so the \<^verbatim>\<open>const Object *\<close> of a hit is modelled by the object it
  points to.
\<close>

record object =
  pos :: vec
  surface_color :: vec
  emission_color :: vec
  radius :: fl

record hit =
  hit_pos :: vec
  hit_norm :: vec
  hit_obj :: object

record scene =
  objs :: "object list"

text \<open>
  \<^verbatim>\<open>Sphere::intersect\<close>; \<open>None\<close> is \<^verbatim>\<open>nullptr\<close>.  As in the source, the local
  \<open>distance\<close> hides the function of that name.
\<close>

definition intersect :: "object \<Rightarrow> ray \<Rightarrow> hit option" where
  "intersect this r =
     (let l = pos this - org r;
          l_cos = dot l (dir r)
      in if l_cos \<le> Fin 0 then None
         else
           let l_sin_sqr = sqr_length l - l_cos * l_cos
           in if l_sin_sqr > radius this * radius this then None
              else
                let distance = l_cos - sqrt_fl (radius this * radius this - l_sin_sqr);
                    p = org r + smul (dir r) distance
                in Some \<lparr>hit_pos = p, hit_norm = normalized (p - pos this), hit_obj = this\<rparr>)"

text \<open>
  The loop of \<^verbatim>\<open>trace\<close> over \<^verbatim>\<open>scene.objs\<close>, on the pair of its two variables
  \<^verbatim>\<open>min_distance\<close> and \<^verbatim>\<open>first_hit\<close>.
\<close>

fun nearest_loop :: "ray \<Rightarrow> object list \<Rightarrow> fl \<times> hit option \<Rightarrow> fl \<times> hit option" where
  "nearest_loop r [] (min_distance, first_hit) = (min_distance, first_hit)"
| "nearest_loop r (obj # rest) (min_distance, first_hit) =
     (case intersect obj r of
        None \<Rightarrow> nearest_loop r rest (min_distance, first_hit)
      | Some h \<Rightarrow>
          let d = distance (org r) (hit_pos h)
          in if d < min_distance then nearest_loop r rest (d, Some h)
             else nearest_loop r rest (min_distance, first_hit))"

definition nearest_hit :: "ray \<Rightarrow> scene \<Rightarrow> hit option" where
  "nearest_hit r sc = snd (nearest_loop r (objs sc) (PInf, None))"

text \<open>The orientation step: the normal is negated when it points along the ray.\<close>

definition orient :: "ray \<Rightarrow> hit \<Rightarrow> hit" where
  "orient r h =
     (if dot (dir r) (hit_norm h) > Fin 0 then h\<lparr>hit_norm := - hit_norm h\<rparr> else h)"

definition reflect_ray :: "ray \<Rightarrow> hit \<Rightarrow> ray" where
  "reflect_ray r h =
     \<lparr>org = hit_pos h,
      dir = dir r - smul (smul (hit_norm h) (Fin 2)) (dot (dir r) (hit_norm h))\<rparr>"

text \<open>
  \<^verbatim>\<open>trace\<close>.  The local \<^verbatim>\<open>Color surface_color;\<close> is declared with the default
  constructor and is assigned only in the branch \<^verbatim>\<open>max_depth > 0\<close>; \<open>uninit\<close> is the
  value its storage holds at the declaration.
\<close>

function trace :: "vec \<Rightarrow> ray \<Rightarrow> scene \<Rightarrow> int \<Rightarrow> vec" where
  "trace uninit r sc max_depth =
     (case nearest_hit r sc of
        None \<Rightarrow> splat (Fin 0)
      | Some h0 \<Rightarrow>
          let first_hit = orient r h0;
              surface_color =
                (if max_depth > 0
                 then trace uninit (reflect_ray r first_hit) sc (max_depth - 1)
                        * surface_color (hit_obj first_hit) + splat (Fin 0.3)
                 else uninit)
          in surface_color + emission_color (hit_obj first_hit))"
  by pat_completeness auto
termination
  by (relation "measure (\<lambda>(uninit, r, sc, max_depth). nat max_depth)") auto

declare trace.simps [simp del]

text \<open>
  \<^verbatim>\<open>trace\<close> once more, returning with the colour the number of activations nested
  below the current one: 0 when it makes no recursive call, one more than the callee's
  otherwise.
\<close>

function trace_counted :: "vec \<Rightarrow> ray \<Rightarrow> scene \<Rightarrow> int \<Rightarrow> vec \<times> nat" where
  "trace_counted uninit r sc max_depth =
     (case nearest_hit r sc of
        None \<Rightarrow> (splat (Fin 0), 0)
      | Some h0 \<Rightarrow>
          let first_hit = orient r h0
          in if max_depth > 0
             then
               let (reflection, n) =
                     trace_counted uninit (reflect_ray r first_hit) sc (max_depth - 1)
               in (reflection * surface_color (hit_obj first_hit) + splat (Fin 0.3)
                     + emission_color (hit_obj first_hit), Suc n)
             else (uninit + emission_color (hit_obj first_hit), 0))"
  by pat_completeness auto
termination
  by (relation "measure (\<lambda>(uninit, r, sc, max_depth). nat max_depth)") auto

declare trace_counted.simps [simp del]

section \<open>Nearest-hit resolution, as the specification words it\<close>

text \<open>
  The specification of the loop: every object is tested (\<open>hits\<close>, the hits in scene
  order), and of the hits that can be selected the first one whose distance from the
  ray origin is not above any other's is the result.  A hit can be selected when its
  distance is below the initial \<^verbatim>\<open>min_distance\<close>, which is \<open>+\<infinity>\<close>: a distance that is
  NaN or \<open>+\<infinity>\<close> never passes the test \<^verbatim>\<open>distance < min_distance\<close>.
\<close>

definition hit_distance :: "ray \<Rightarrow> hit \<Rightarrow> fl" where
  "hit_distance r h = distance (org r) (hit_pos h)"

definition hits :: "ray \<Rightarrow> object list \<Rightarrow> hit list" where
  "hits r os = List.map_filter (\<lambda>obj. intersect obj r) os"

definition reachable_hits :: "ray \<Rightarrow> object list \<Rightarrow> hit list" where
  "reachable_hits r os = filter (\<lambda>h. hit_distance r h < PInf) (hits r os)"

definition least_first :: "('a \<Rightarrow> fl) \<Rightarrow> 'a list \<Rightarrow> 'a option" where
  "least_first k cs = find (\<lambda>h. \<forall>h'\<in>set cs. k h \<le> k h') cs"

definition nearest_spec :: "ray \<Rightarrow> scene \<Rightarrow> hit option" where
  "nearest_spec r sc = least_first (hit_distance r) (reachable_hits r (objs sc))"

section \<open>Example rays and scenes\<close>

definition zero_v :: vec where
  "zero_v = Vector3 (Fin 0) (Fin 0) (Fin 0)"

text \<open>The ray of the specification's concrete scenario, and the opposite one.\<close>

definition ray_fwd :: ray where
  "ray_fwd = \<lparr>org = zero_v, dir = Vector3 (Fin 0) (Fin 0) (Fin (- 1))\<rparr>"

definition ray_back :: ray where
  "ray_back = \<lparr>org = zero_v, dir = Vector3 (Fin 0) (Fin 0) (Fin 1)\<rparr>"

text \<open>The second sphere of \<^verbatim>\<open>main\<close>, which is the sphere of the concrete scenario.\<close>

definition sphere_red :: object where
  "sphere_red =
     \<lparr>pos = Vector3 (Fin 0) (Fin 0) (Fin (- 20)),
      surface_color = Vector3 (Fin 1) (Fin 0.32) (Fin 0.36),
      emission_color = zero_v, radius = Fin 4\<rparr>"

text \<open>The same sphere, black; with \<open>sphere_red\<close> it gives two hits at one distance.\<close>

definition sphere_black :: object where
  "sphere_black =
     \<lparr>pos = Vector3 (Fin 0) (Fin 0) (Fin (- 20)),
      surface_color = zero_v, emission_color = zero_v, radius = Fin 4\<rparr>"

text \<open>A unit sphere that \<open>ray_fwd\<close> touches in one point.\<close>

definition sphere_tangent :: object where
  "sphere_tangent =
     \<lparr>pos = Vector3 (Fin 0) (Fin 1) (Fin (- 5)),
      surface_color = zero_v, emission_color = zero_v, radius = Fin 1\<rparr>"

text \<open>A sphere of radius 0 on the ray: the hit position is its centre.\<close>

definition sphere_point :: object where
  "sphere_point =
     \<lparr>pos = Vector3 (Fin 0) (Fin 0) (Fin (- 1)),
      surface_color = zero_v, emission_color = zero_v, radius = Fin 0\<rparr>"

text \<open>A unit sphere whose centre is infinitely far down the ray.\<close>

definition sphere_far :: object where
  "sphere_far =
     \<lparr>pos = Vector3 (Fin 0) (Fin 0) NInf,
      surface_color = zero_v, emission_color = zero_v, radius = Fin 1\<rparr>"

definition hit_red :: hit where
  "hit_red =
     \<lparr>hit_pos = Vector3 (Fin 0) (Fin 0) (Fin (- 16)),
      hit_norm = Vector3 (Fin 0) (Fin 0) (Fin 1), hit_obj = sphere_red\<rparr>"

definition hit_black :: hit where
  "hit_black =
     \<lparr>hit_pos = Vector3 (Fin 0) (Fin 0) (Fin (- 16)),
      hit_norm = Vector3 (Fin 0) (Fin 0) (Fin 1), hit_obj = sphere_black\<rparr>"

definition hit_point :: hit where
  "hit_point =
     \<lparr>hit_pos = Vector3 (Fin 0) (Fin 0) (Fin (- 1)),
      hit_norm = Vector3 NaN NaN NaN, hit_obj = sphere_point\<rparr>"

definition hit_far :: hit where
  "hit_far =
     \<lparr>hit_pos = Vector3 NaN NaN NaN, hit_norm = Vector3 NaN NaN NaN, hit_obj = sphere_far\<rparr>"

text \<open>
  A ray whose direction is not of unit length, and a sphere that it hits where the
  computed normal points along the ray.  (The components 12/13 and 5/13 of that normal
  are rounded in binary32; every other value of the example is an integer.)
\<close>

definition ray_long :: ray where
  "ray_long = \<lparr>org = zero_v, dir = Vector3 (Fin 0) (Fin 0) (Fin (- 2))\<rparr>"

definition sphere_skew :: object where
  "sphere_skew =
     \<lparr>pos = Vector3 (Fin 12) (Fin 0) (Fin (- 3)),
      surface_color = zero_v, emission_color = zero_v, radius = Fin 11\<rparr>"

definition hit_skew :: hit where
  "hit_skew =
     \<lparr>hit_pos = Vector3 (Fin 0) (Fin 0) (Fin (- 8)),
      hit_norm = Vector3 (Fin (- 12 / 13)) (Fin 0) (Fin (- 5 / 13)), hit_obj = sphere_skew\<rparr>"

definition ones :: vec where
  "ones = Vector3 (Fin 1) (Fin 1) (Fin 1)"

section \<open>Arithmetic of the scalars\<close>

lemma fl_less_irrefl: "\<not> (a::fl) < a"
  by (cases a) simp_all

lemma fl_less_not_le: "(a::fl) < b \<Longrightarrow> \<not> b \<le> a"
  by (cases a; cases b) simp_all

lemma fl_uminus_times: "(a::fl) * (- b) = - (a * b)"
  by (cases a; cases b) simp_all

lemma fl_uminus_plus: "- (a::fl) + (- b) = - (a + b)"
  by (cases a; cases b) simp_all

lemma fl_pos_uminus_le: "Fin 0 < a \<Longrightarrow> - a \<le> Fin 0"
  by (cases a) simp_all

lemma fl_not_pos_le: "\<not> Fin 0 < a \<Longrightarrow> a \<noteq> NaN \<Longrightarrow> a \<le> Fin 0"
  by (cases a) simp_all

lemma fl_le_refl: "(a::fl) < PInf \<Longrightarrow> a \<le> a"
  by (cases a) simp_all

lemma fl_not_less_iff: "(a::fl) < PInf \<Longrightarrow> b < PInf \<Longrightarrow> \<not> a < b \<longleftrightarrow> b \<le> a"
  by (cases a; cases b) auto

lemma fl_le_trans: "(a::fl) \<le> b \<Longrightarrow> b \<le> c \<Longrightarrow> a \<le> c"
  by (cases a; cases b; cases c) simp_all

lemma fl_less_imp_le: "(a::fl) < b \<Longrightarrow> a \<le> b"
  by (cases a; cases b) simp_all

lemma fl_less_trans: "(a::fl) < b \<Longrightarrow> b < c \<Longrightarrow> a < c"
  by (cases a; cases b; cases c) simp_all

lemma dot_uminus: "dot d (- n) = - dot d n"
  by (simp add: dot_def uminus_vec_def fl_uminus_times fl_uminus_plus)

lemma sqrt_16: "sqrt 16 = 4"
  using real_sqrt_abs [of 4] by simp

lemma sqrt_256: "sqrt 256 = 16"
  using real_sqrt_abs [of 16] by simp

lemmas vec_eval =
  dot_def sqr_length_def length_v_def normalized_def sqr_distance_def distance_def
  plus_vec_def minus_vec_def times_vec_def uminus_vec_def minus_fl_def smul_def sdiv_def
  splat_def zero_v_def ones_def

section \<open>The example inputs, evaluated\<close>

lemma intersect_red: "intersect sphere_red ray_fwd = Some hit_red"
  by (simp add: intersect_def Let_def sphere_red_def ray_fwd_def hit_red_def vec_eval sqrt_16)

lemma intersect_black: "intersect sphere_black ray_fwd = Some hit_black"
  by (simp add: intersect_def Let_def sphere_black_def ray_fwd_def hit_black_def vec_eval sqrt_16)

lemma intersect_red_back: "intersect sphere_red ray_back = None"
  by (simp add: intersect_def Let_def sphere_red_def ray_back_def vec_eval)

lemma intersect_point: "intersect sphere_point ray_fwd = Some hit_point"
  by (simp add: intersect_def Let_def sphere_point_def ray_fwd_def hit_point_def vec_eval)

lemma intersect_far: "intersect sphere_far ray_fwd = Some hit_far"
  by (simp add: intersect_def Let_def sphere_far_def ray_fwd_def hit_far_def vec_eval)

lemma hit_distance_red: "hit_distance ray_fwd hit_red = Fin 16"
  by (simp add: hit_distance_def ray_fwd_def hit_red_def vec_eval sqrt_256)

lemma hit_distance_black: "hit_distance ray_fwd hit_black = Fin 16"
  by (simp add: hit_distance_def ray_fwd_def hit_black_def vec_eval sqrt_256)

lemma hit_distance_point: "hit_distance ray_fwd hit_point = Fin 1"
  by (simp add: hit_distance_def ray_fwd_def hit_point_def vec_eval)

lemma hit_distance_far: "hit_distance ray_fwd hit_far = NaN"
  by (simp add: hit_distance_def ray_fwd_def hit_far_def vec_eval)

lemma nearest_red: "nearest_hit ray_fwd \<lparr>objs = [sphere_red]\<rparr> = Some hit_red"
  using hit_distance_red by (simp add: nearest_hit_def intersect_red hit_distance_def)

lemma nearest_black: "nearest_hit ray_fwd \<lparr>objs = [sphere_black]\<rparr> = Some hit_black"
  using hit_distance_black by (simp add: nearest_hit_def intersect_black hit_distance_def)

lemma nearest_point: "nearest_hit ray_fwd \<lparr>objs = [sphere_point]\<rparr> = Some hit_point"
  using hit_distance_point by (simp add: nearest_hit_def intersect_point hit_distance_def)

lemma nearest_far: "nearest_hit ray_fwd \<lparr>objs = [sphere_far]\<rparr> = None"
  using hit_distance_far by (simp add: nearest_hit_def intersect_far hit_distance_def)

lemma sqrt_169: "sqrt 169 = 13"
  using real_sqrt_abs [of 13] by simp

lemma sqrt_64: "sqrt 64 = 8"
  using real_sqrt_abs [of 8] by simp

lemma intersect_skew: "intersect sphere_skew ray_long = Some hit_skew"
  by (simp add: intersect_def Let_def sphere_skew_def ray_long_def hit_skew_def vec_eval sqrt_169)

lemma hit_distance_skew: "hit_distance ray_long hit_skew = Fin 8"
  by (simp add: hit_distance_def ray_long_def hit_skew_def vec_eval sqrt_64)

lemma nearest_skew: "nearest_hit ray_long \<lparr>objs = [sphere_skew]\<rparr> = Some hit_skew"
  using hit_distance_skew by (simp add: nearest_hit_def intersect_skew hit_distance_def)


lemma orient_black: "orient ray_fwd hit_black = hit_black"
  by (simp add: orient_def ray_fwd_def hit_black_def vec_eval)

lemma reflect_black:
  "reflect_ray ray_fwd hit_black =
     \<lparr>org = Vector3 (Fin 0) (Fin 0) (Fin (- 16)), dir = Vector3 (Fin 0) (Fin 0) (Fin 1)\<rparr>"
  by (simp add: reflect_ray_def ray_fwd_def hit_black_def vec_eval)

lemma nearest_black_reflected:
  "nearest_hit (reflect_ray ray_fwd (orient ray_fwd hit_black)) \<lparr>objs = [sphere_black]\<rparr> = None"
  by (simp add: orient_black reflect_black nearest_hit_def intersect_def Let_def sphere_black_def vec_eval)

section \<open>The branches of \<^verbatim>\<open>trace\<close>\<close>

lemma hit_obj_orient: "hit_obj (orient r h) = hit_obj h"
  by (simp add: orient_def)

lemma trace_miss: "nearest_hit r sc = None \<Longrightarrow> trace uninit r sc d = splat (Fin 0)"
  by (subst trace.simps) simp

lemma trace_exhausted:
  "nearest_hit r sc = Some h0 \<Longrightarrow> d \<le> 0 \<Longrightarrow>
   trace uninit r sc d = uninit + emission_color (hit_obj h0)"
  by (subst trace.simps) (simp add: Let_def hit_obj_orient)

lemma trace_bounce:
  "nearest_hit r sc = Some h0 \<Longrightarrow> 0 < d \<Longrightarrow>
   trace uninit r sc d =
     trace uninit (reflect_ray r (orient r h0)) sc (d - 1) * surface_color (hit_obj h0)
       + splat (Fin 0.3) + emission_color (hit_obj h0)"
  by (subst trace.simps) (simp add: Let_def hit_obj_orient)

lemma nearest_loop_all_miss:
  "\<forall>obj\<in>set os. intersect obj r = None \<Longrightarrow> nearest_loop r os st = st"
  by (induction os arbitrary: st) (auto split: prod.splits)

section \<open>Sphere intersection\<close>

text \<open>
  C3.  A sphere whose centre lies behind the ray origin, or beside it, is missed: for
  every sphere and every ray, if the dot product of \<open>sphere.position - ray.origin\<close> with
  \<open>ray.direction\<close> is less than or equal to zero, \<^verbatim>\<open>Sphere::intersect\<close> returns no hit.
\<close>

theorem sphere_behind_misses:
  "dot (pos s - org r) (dir r) \<le> Fin 0 \<Longrightarrow> intersect s r = None"
  by (simp add: intersect_def Let_def)

theorem sphere_behind_misses_witness:
  "dot (pos sphere_red - org ray_back) (dir ray_back) = Fin (- 20)
   \<and> Fin (- 20) \<le> Fin 0
   \<and> intersect sphere_red ray_back = None"
proof -
  have v: "dot (pos sphere_red - org ray_back) (dir ray_back) = Fin (- 20)"
    by (simp add: sphere_red_def ray_back_def vec_eval)
  then have "dot (pos sphere_red - org ray_back) (dir ray_back) \<le> Fin 0"
    by simp
  then have "intersect sphere_red ray_back = None"
    by (rule sphere_behind_misses)
  with v show ?thesis by simp
qed

text \<open>
  C4.  The tangent ray hits: for every sphere and every ray with positive \<open>l_cos\<close> whose
  \<open>l_sin_sqr = |l|\<^sup>2 - l_cos\<^sup>2\<close> equals \<open>radius\<^sup>2\<close> exactly, \<^verbatim>\<open>Sphere::intersect\<close> returns a hit;
  the rejection test is the strict \<^verbatim>\<open>l_sin_sqr > radius * radius\<close>.
\<close>

theorem tangent_ray_hits:
  assumes "Fin 0 < dot (pos s - org r) (dir r)"
    and "sqr_length (pos s - org r) - dot (pos s - org r) (dir r) * dot (pos s - org r) (dir r)
           = radius s * radius s"
  shows "intersect s r \<noteq> None"
  using fl_less_not_le [OF assms(1)] assms(2)
  by (simp add: intersect_def Let_def fl_less_irrefl)

theorem tangent_ray_hits_witness:
  "Fin 0 < dot (pos sphere_tangent - org ray_fwd) (dir ray_fwd)
   \<and> sqr_length (pos sphere_tangent - org ray_fwd)
       - dot (pos sphere_tangent - org ray_fwd) (dir ray_fwd)
         * dot (pos sphere_tangent - org ray_fwd) (dir ray_fwd)
     = radius sphere_tangent * radius sphere_tangent
   \<and> intersect sphere_tangent ray_fwd \<noteq> None"
proof -
  have a: "Fin 0 < dot (pos sphere_tangent - org ray_fwd) (dir ray_fwd)"
    by (simp add: sphere_tangent_def ray_fwd_def vec_eval)
  have b: "sqr_length (pos sphere_tangent - org ray_fwd)
       - dot (pos sphere_tangent - org ray_fwd) (dir ray_fwd)
         * dot (pos sphere_tangent - org ray_fwd) (dir ray_fwd)
     = radius sphere_tangent * radius sphere_tangent"
    by (simp add: sphere_tangent_def ray_fwd_def vec_eval)
  from a b tangent_ray_hits [OF a b] show ?thesis by (intro conjI)
qed

section \<open>Shading\<close>

text \<open>
  C7.  The background: for the empty scene and every ray, and for every ray and scene
  in which no object's \<^verbatim>\<open>intersect\<close> returns a hit, \<^verbatim>\<open>trace\<close> returns exactly the
  colour (0,0,0), for every depth budget.
\<close>

theorem trace_background:
  "trace uninit r \<lparr>objs = []\<rparr> d = Vector3 (Fin 0) (Fin 0) (Fin 0)
   \<and> ((\<forall>obj\<in>set (objs sc). intersect obj r = None)
        \<longrightarrow> trace uninit r sc d = Vector3 (Fin 0) (Fin 0) (Fin 0))"
proof (intro conjI impI)
  show "trace uninit r \<lparr>objs = []\<rparr> d = Vector3 (Fin 0) (Fin 0) (Fin 0)"
    by (simp add: trace_miss nearest_hit_def splat_def)
next
  assume "\<forall>obj\<in>set (objs sc). intersect obj r = None"
  then have "nearest_hit r sc = None"
    by (simp add: nearest_hit_def nearest_loop_all_miss)
  then show "trace uninit r sc d = Vector3 (Fin 0) (Fin 0) (Fin 0)"
    by (simp add: trace_miss splat_def)
qed

theorem trace_background_witness:
  "intersect sphere_red ray_back = None
   \<and> trace ones ray_back \<lparr>objs = [sphere_red]\<rparr> 5 = Vector3 (Fin 0) (Fin 0) (Fin 0)"
proof -
  have a: "\<forall>obj\<in>set (objs \<lparr>objs = [sphere_red]\<rparr>). intersect obj ray_back = None"
    by (simp add: intersect_red_back)
  with trace_background [of ones ray_back 5 "\<lparr>objs = [sphere_red]\<rparr>"]
  have "trace ones ray_back \<lparr>objs = [sphere_red]\<rparr> 5 = Vector3 (Fin 0) (Fin 0) (Fin 0)"
    by blast
  with intersect_red_back show ?thesis by (intro conjI)
qed

text \<open>
  C1.  With budget 0, \<^verbatim>\<open>trace\<close> makes no recursive call, and a miss returns the
  background; but on a hit it returns \<open>surface_color + emission_color\<close> where the local
  \<^verbatim>\<open>surface_color\<close> was declared by \<^verbatim>\<open>Vector3() {}\<close> and never assigned.  In the
  concrete scenario of the specification (one non-emissive sphere at (0,0,-20) of radius
  4, the ray from the origin along (0,0,-1), budget 0), with the storage of the local
  holding (1,1,1), the result is (1,1,1) and not the emission colour (0,0,0).
\<close>

theorem trace_exhausted_reads_unassigned:
  "nearest_hit ray_fwd \<lparr>objs = [sphere_red]\<rparr> = Some hit_red
   \<and> emission_color (hit_obj hit_red) = Vector3 (Fin 0) (Fin 0) (Fin 0)
   \<and> trace (Vector3 (Fin 1) (Fin 1) (Fin 1)) ray_fwd \<lparr>objs = [sphere_red]\<rparr> 0
       = Vector3 (Fin 1) (Fin 1) (Fin 1)
   \<and> trace (Vector3 (Fin 1) (Fin 1) (Fin 1)) ray_fwd \<lparr>objs = [sphere_red]\<rparr> 0
       \<noteq> emission_color (hit_obj hit_red)"
proof -
  have e: "emission_color (hit_obj hit_red) = Vector3 (Fin 0) (Fin 0) (Fin 0)"
    by (simp add: hit_red_def sphere_red_def zero_v_def)
  have t: "trace (Vector3 (Fin 1) (Fin 1) (Fin 1)) ray_fwd \<lparr>objs = [sphere_red]\<rparr> 0
       = Vector3 (Fin 1) (Fin 1) (Fin 1)"
    by (simp add: trace_exhausted [OF nearest_red] e plus_vec_def)
  have "trace (Vector3 (Fin 1) (Fin 1) (Fin 1)) ray_fwd \<lparr>objs = [sphere_red]\<rparr> 0
       \<noteq> emission_color (hit_obj hit_red)"
    by (simp add: t e)
  with nearest_red e t show ?thesis by (intro conjI)
qed

text \<open>The ray along which \<^verbatim>\<open>trace\<close> recurses, written out.\<close>

lemma reflect_ray_orient:
  "reflect_ray r (orient r h) =
     (let n = (if Fin 0 < dot (dir r) (hit_norm h) then - hit_norm h else hit_norm h)
      in \<lparr>org = hit_pos h, dir = dir r - smul (smul n (Fin 2)) (dot (dir r) n)\<rparr>)"
  by (simp add: reflect_ray_def orient_def Let_def)

text \<open>
  C2.  With a positive budget \<open>d\<close> and a hit (the nearest hit that the loop resolves),
  the colour is the colour traced with budget \<open>d - 1\<close> along the mirror-reflection ray,
  multiplied componentwise by the surface colour of the hit object, plus (0.3,0.3,0.3),
  plus the emission colour of the object.  The mirror-reflection ray starts at the hit
  position and has the direction \<open>dir - (n * 2) * dot(dir, n)\<close>, where \<open>n\<close> is the normal
  of the hit, negated when its dot product with \<open>dir\<close> is positive.  In particular, when
  the object is black and does not emit and the reflected ray escapes to the
  background, \<^verbatim>\<open>trace(ray, scene, 1)\<close> is (0.3,0.3,0.3).
\<close>

theorem trace_reflection:
  assumes "nearest_hit r sc = Some h"
  shows "(let n = (if Fin 0 < dot (dir r) (hit_norm h) then - hit_norm h else hit_norm h);
              mirror = \<lparr>org = hit_pos h, dir = dir r - smul (smul n (Fin 2)) (dot (dir r) n)\<rparr>
          in (0 < d \<longrightarrow>
                trace uninit r sc d =
                  trace uninit mirror sc (d - 1) * surface_color (hit_obj h)
                    + Vector3 (Fin 0.3) (Fin 0.3) (Fin 0.3) + emission_color (hit_obj h))
             \<and> (surface_color (hit_obj h) = Vector3 (Fin 0) (Fin 0) (Fin 0)
                  \<and> emission_color (hit_obj h) = Vector3 (Fin 0) (Fin 0) (Fin 0)
                  \<and> nearest_hit mirror sc = None \<longrightarrow>
                  trace uninit r sc 1 = Vector3 (Fin 0.3) (Fin 0.3) (Fin 0.3)))"
proof -
  define mirror where "mirror = reflect_ray r (orient r h)"
  have general: "trace uninit r sc k =
      trace uninit mirror sc (k - 1) * surface_color (hit_obj h)
        + Vector3 (Fin 0.3) (Fin 0.3) (Fin 0.3) + emission_color (hit_obj h)"
    if "0 < k" for k
    using assms that by (simp add: trace_bounce splat_def mirror_def)
  have black: "trace uninit r sc 1 = Vector3 (Fin 0.3) (Fin 0.3) (Fin 0.3)"
    if "surface_color (hit_obj h) = Vector3 (Fin 0) (Fin 0) (Fin 0)"
      and "emission_color (hit_obj h) = Vector3 (Fin 0) (Fin 0) (Fin 0)"
      and "nearest_hit mirror sc = None"
  proof -
    from that(3) have "trace uninit mirror sc 0 = splat (Fin 0)"
      by (simp add: trace_miss)
    with that(1,2) show ?thesis
      using general [of 1] by (simp add: splat_def plus_vec_def times_vec_def)
  qed
  have "(0 < d \<longrightarrow>
           trace uninit r sc d =
             trace uninit mirror sc (d - 1) * surface_color (hit_obj h)
               + Vector3 (Fin 0.3) (Fin 0.3) (Fin 0.3) + emission_color (hit_obj h))
        \<and> (surface_color (hit_obj h) = Vector3 (Fin 0) (Fin 0) (Fin 0)
             \<and> emission_color (hit_obj h) = Vector3 (Fin 0) (Fin 0) (Fin 0)
             \<and> nearest_hit mirror sc = None \<longrightarrow>
             trace uninit r sc 1 = Vector3 (Fin 0.3) (Fin 0.3) (Fin 0.3))"
    using general [of d] black by blast
  then show ?thesis
    unfolding mirror_def reflect_ray_orient Let_def .
qed

theorem trace_reflection_witness:
  "nearest_hit ray_fwd \<lparr>objs = [sphere_black]\<rparr> = Some hit_black
   \<and> dot (dir ray_fwd) (hit_norm hit_black) = Fin (- 1)
   \<and> dir ray_fwd - smul (smul (hit_norm hit_black) (Fin 2)) (dot (dir ray_fwd) (hit_norm hit_black))
       = Vector3 (Fin 0) (Fin 0) (Fin 1)
   \<and> surface_color (hit_obj hit_black) = Vector3 (Fin 0) (Fin 0) (Fin 0)
   \<and> emission_color (hit_obj hit_black) = Vector3 (Fin 0) (Fin 0) (Fin 0)
   \<and> nearest_hit \<lparr>org = Vector3 (Fin 0) (Fin 0) (Fin (- 16)), dir = Vector3 (Fin 0) (Fin 0) (Fin 1)\<rparr>
         \<lparr>objs = [sphere_black]\<rparr> = None
   \<and> trace ones ray_fwd \<lparr>objs = [sphere_black]\<rparr> 1 = Vector3 (Fin 0.3) (Fin 0.3) (Fin 0.3)"
proof -
  have s: "surface_color (hit_obj hit_black) = Vector3 (Fin 0) (Fin 0) (Fin 0)"
    and e: "emission_color (hit_obj hit_black) = Vector3 (Fin 0) (Fin 0) (Fin 0)"
    by (simp_all add: hit_black_def sphere_black_def zero_v_def)
  have dt: "dot (dir ray_fwd) (hit_norm hit_black) = Fin (- 1)"
    by (simp add: ray_fwd_def hit_black_def vec_eval)
  have dr: "dir ray_fwd - smul (smul (hit_norm hit_black) (Fin 2)) (dot (dir ray_fwd) (hit_norm hit_black))
       = Vector3 (Fin 0) (Fin 0) (Fin 1)"
    by (simp add: ray_fwd_def hit_black_def vec_eval)
  have hp: "hit_pos hit_black = Vector3 (Fin 0) (Fin 0) (Fin (- 16))"
    by (simp add: hit_black_def)
  have miss: "nearest_hit \<lparr>org = Vector3 (Fin 0) (Fin 0) (Fin (- 16)), dir = Vector3 (Fin 0) (Fin 0) (Fin 1)\<rparr>
         \<lparr>objs = [sphere_black]\<rparr> = None"
    using nearest_black_reflected by (simp add: orient_black reflect_black)
  note t = trace_reflection [OF nearest_black, of 1 ones, unfolded Let_def dt, simplified, unfolded dr hp]
  have "trace ones ray_fwd \<lparr>objs = [sphere_black]\<rparr> 1 = Vector3 (Fin 0.3) (Fin 0.3) (Fin 0.3)"
    using t s e miss by blast
  with nearest_black dt dr s e miss show ?thesis by (intro conjI)
qed

section \<open>Orientation of the normal\<close>

lemma orient_norm:
  "hit_norm (orient r h) =
     (if Fin 0 < dot (dir r) (hit_norm h) then - hit_norm h else hit_norm h)"
  by (simp add: orient_def)

lemma orient_dot_le:
  assumes "dot (dir r) (hit_norm h) \<noteq> NaN"
  shows "dot (dir r) (hit_norm (orient r h)) \<le> Fin 0"
proof (cases "Fin 0 < dot (dir r) (hit_norm h)")
  case True
  then show ?thesis
    by (simp add: orient_norm dot_uminus fl_pos_uminus_le)
next
  case False
  with assms show ?thesis
    by (simp add: orient_norm fl_not_pos_le)
qed

text \<open>
  C6, as the code has it.  Whenever \<^verbatim>\<open>trace\<close> resolves a nearest hit and the dot product
  of the ray direction with the normal of the hit is not NaN, after the orientation
  step the normal satisfies \<open>dot(ray.direction, hit.normal) \<le> 0\<close>; the normal is negated
  exactly when that dot product is positive.
\<close>

theorem orient_faces_ray:
  assumes "nearest_hit r sc = Some h"
    and "dot (dir r) (hit_norm h) \<noteq> NaN"
  shows "dot (dir r) (hit_norm (orient r h)) \<le> Fin 0
       \<and> hit_norm (orient r h) =
           (if Fin 0 < dot (dir r) (hit_norm h) then - hit_norm h else hit_norm h)"
  using orient_dot_le [OF assms(2)] orient_norm by simp

theorem orient_faces_ray_witness:
  "nearest_hit ray_long \<lparr>objs = [sphere_skew]\<rparr> = Some hit_skew
   \<and> dot (dir ray_long) (hit_norm hit_skew) = Fin (10 / 13)
   \<and> hit_norm (orient ray_long hit_skew) = Vector3 (Fin (12 / 13)) (Fin 0) (Fin (5 / 13))
   \<and> dot (dir ray_long) (hit_norm (orient ray_long hit_skew)) \<le> Fin 0
   \<and> nearest_hit ray_fwd \<lparr>objs = [sphere_red]\<rparr> = Some hit_red
   \<and> dot (dir ray_fwd) (hit_norm hit_red) = Fin (- 1)
   \<and> hit_norm (orient ray_fwd hit_red) = Vector3 (Fin 0) (Fin 0) (Fin 1)
   \<and> dot (dir ray_fwd) (hit_norm (orient ray_fwd hit_red)) \<le> Fin 0"
proof -
  have ds: "dot (dir ray_long) (hit_norm hit_skew) = Fin (10 / 13)"
    by (simp add: ray_long_def hit_skew_def vec_eval)
  then have ns: "dot (dir ray_long) (hit_norm hit_skew) \<noteq> NaN"
    by simp
  note ts = orient_faces_ray [OF nearest_skew ns]
  have flipped: "hit_norm (orient ray_long hit_skew) = Vector3 (Fin (12 / 13)) (Fin 0) (Fin (5 / 13))"
    using conjunct2 [OF ts] ds by (simp add: hit_skew_def uminus_vec_def)
  have dr: "dot (dir ray_fwd) (hit_norm hit_red) = Fin (- 1)"
    by (simp add: ray_fwd_def hit_red_def vec_eval)
  then have nr: "dot (dir ray_fwd) (hit_norm hit_red) \<noteq> NaN"
    by simp
  note tr = orient_faces_ray [OF nearest_red nr]
  have kept: "hit_norm (orient ray_fwd hit_red) = Vector3 (Fin 0) (Fin 0) (Fin 1)"
    using conjunct2 [OF tr] dr by (simp add: hit_red_def)
  from nearest_skew ds flipped conjunct1 [OF ts] nearest_red dr kept conjunct1 [OF tr]
  show ?thesis by (intro conjI)
qed

text \<open>
  C6 as stated fails: a sphere of radius 0 at (0,0,-1) is hit by the ray from the origin
  along (0,0,-1) at its centre, the normal is (0,0,0) divided by the length 0, that is
  NaN in every component, the test \<^verbatim>\<open>dot > 0\<close> is false, the normal stays, and the dot
  product is not less than or equal to 0.
\<close>

theorem orient_nan_counterexample:
  "nearest_hit ray_fwd \<lparr>objs = [sphere_point]\<rparr> = Some hit_point
   \<and> hit_norm (orient ray_fwd hit_point) = Vector3 NaN NaN NaN
   \<and> \<not> dot (dir ray_fwd) (hit_norm (orient ray_fwd hit_point)) \<le> Fin 0"
  by (simp add: nearest_point orient_def) (simp add: ray_fwd_def hit_point_def vec_eval)

section \<open>Normalisation\<close>

text \<open>
  C9.  For every vector whose length is below the machine epsilon of \<^verbatim>\<open>float\<close>, the
  free function \<^verbatim>\<open>normalize\<close> returns its argument unchanged, whereas the member
  \<^verbatim>\<open>normalized()\<close> divides by the length with no guard.
\<close>

theorem normalize_guarded:
  "(length_v v < epsilon \<longrightarrow> normalize v = v) \<and> normalized v = sdiv v (length_v v)"
  by (simp add: normalize_def normalized_def Let_def)

theorem normalize_guarded_witness:
  "length_v (Vector3 (Fin 0) (Fin 0) (Fin 0)) < epsilon
   \<and> normalize (Vector3 (Fin 0) (Fin 0) (Fin 0)) = Vector3 (Fin 0) (Fin 0) (Fin 0)
   \<and> normalized (Vector3 (Fin 0) (Fin 0) (Fin 0)) = Vector3 NaN NaN NaN"
proof -
  have l: "length_v (Vector3 (Fin 0) (Fin 0) (Fin 0)) = Fin 0"
    by (simp add: vec_eval)
  then have a: "length_v (Vector3 (Fin 0) (Fin 0) (Fin 0)) < epsilon"
    by (simp add: epsilon_def)
  have "normalized (Vector3 (Fin 0) (Fin 0) (Fin 0)) = Vector3 NaN NaN NaN"
    using normalize_guarded [of "Vector3 (Fin 0) (Fin 0) (Fin 0)"] l by (simp add: sdiv_def)
  with a normalize_guarded [of "Vector3 (Fin 0) (Fin 0) (Fin 0)"] show ?thesis
    by (intro conjI) simp_all
qed

section \<open>Nearest-hit resolution\<close>

lemma least_first_Nil: "least_first k [] = None"
  by (simp add: least_first_def)

lemma least_first_single: "k b < PInf \<Longrightarrow> least_first k [b] = Some b"
  by (simp add: least_first_def fl_le_refl)

text \<open>A strictly nearer hit displaces the current best.\<close>

lemma least_first_skip:
  assumes "k h < k b"
  shows "least_first k (b # h # l) = least_first k (h # l)"
proof -
  define P where "P = (\<lambda>x. \<forall>y\<in>set (b # h # l). k x \<le> k y)"
  define Q where "Q = (\<lambda>x. \<forall>y\<in>set (h # l). k x \<le> k y)"
  have nb: "\<not> P b"
    using fl_less_not_le [OF assms] by (simp add: P_def)
  have "P x \<longleftrightarrow> Q x" for x
  proof
    assume q: "Q x"
    then have "k x \<le> k h" by (simp add: Q_def)
    then have "k x \<le> k b" using fl_less_imp_le [OF assms] by (rule fl_le_trans)
    with q show "P x" by (simp add: P_def Q_def)
  qed (simp add: P_def Q_def)
  then have "find P (h # l) = find Q (h # l)"
    by (intro find_cong [OF refl])
  with nb have "find P (b # h # l) = find Q (h # l)" by simp
  then show ?thesis by (simp only: least_first_def P_def Q_def)
qed

text \<open>A hit that is not strictly nearer leaves the current best in place.\<close>

lemma least_first_keep:
  assumes "\<not> k h < k b" "k b < PInf" "k h < PInf"
  shows "least_first k (b # h # l) = least_first k (b # l)"
proof -
  define P where "P = (\<lambda>x. \<forall>y\<in>set (b # h # l). k x \<le> k y)"
  define Q where "Q = (\<lambda>x. \<forall>y\<in>set (b # l). k x \<le> k y)"
  have bh: "k b \<le> k h" using assms by (simp add: fl_not_less_iff)
  have PQ: "P x \<longleftrightarrow> Q x" if "k x \<le> k b" for x
  proof -
    from that bh have "k x \<le> k h" by (rule fl_le_trans)
    then show ?thesis by (simp add: P_def Q_def)
  qed
  have Pb: "P b \<longleftrightarrow> Q b" using assms(2) by (intro PQ fl_le_refl)
  have PQ': "Q x \<Longrightarrow> P x" "P x \<Longrightarrow> Q x" for x
    using PQ [of x] by (auto simp: P_def Q_def)
  have rest: "find P l = find Q l"
    by (rule find_cong [OF refl]) (use PQ' in blast)
  have Ph: "Q b" if "P h"
  proof -
    have "k b \<le> k y" if "y \<in> set (b # l)" for y
    proof -
      from \<open>P h\<close> that have "k h \<le> k y" by (auto simp: P_def)
      with bh show ?thesis by (rule fl_le_trans)
    qed
    then show ?thesis by (simp add: Q_def)
  qed
  have "find P (b # h # l) = find Q (b # l)"
    using Pb Ph rest by (cases "Q b"; cases "P h") simp_all
  then show ?thesis by (simp only: least_first_def P_def Q_def)
qed

lemma reachable_hits_Nil: "reachable_hits r [] = []"
  by (simp add: reachable_hits_def hits_def map_filter_simps)

lemma reachable_hits_miss:
  "intersect obj r = None \<Longrightarrow> reachable_hits r (obj # os) = reachable_hits r os"
  by (simp add: reachable_hits_def hits_def map_filter_simps)

lemma reachable_hits_near:
  "intersect obj r = Some h \<Longrightarrow> hit_distance r h < PInf \<Longrightarrow>
   reachable_hits r (obj # os) = h # reachable_hits r os"
  by (simp add: reachable_hits_def hits_def map_filter_simps)

lemma reachable_hits_far:
  "intersect obj r = Some h \<Longrightarrow> \<not> hit_distance r h < PInf \<Longrightarrow>
   reachable_hits r (obj # os) = reachable_hits r os"
  by (simp add: reachable_hits_def hits_def map_filter_simps)

lemma nearest_loop_miss:
  "intersect obj r = None \<Longrightarrow> nearest_loop r (obj # os) (m, f) = nearest_loop r os (m, f)"
  by simp

lemma nearest_loop_closer:
  "intersect obj r = Some h \<Longrightarrow> hit_distance r h < m \<Longrightarrow>
   nearest_loop r (obj # os) (m, f) = nearest_loop r os (hit_distance r h, Some h)"
  by (simp add: hit_distance_def)

lemma nearest_loop_not_closer:
  "intersect obj r = Some h \<Longrightarrow> \<not> hit_distance r h < m \<Longrightarrow>
   nearest_loop r (obj # os) (m, f) = nearest_loop r os (m, f)"
  by (simp add: hit_distance_def)

text \<open>The loop invariant, once a hit is held: it is the first least of what was seen.\<close>

lemma nearest_loop_Some:
  "hit_distance r b = m \<Longrightarrow> m < PInf \<Longrightarrow>
   snd (nearest_loop r os (m, Some b)) = least_first (hit_distance r) (b # reachable_hits r os)"
proof (induction os arbitrary: b m)
  case Nil
  then show ?case by (simp add: reachable_hits_Nil least_first_single)
next
  case (Cons obj os)
  show ?case
  proof (cases "intersect obj r")
    case None
    then show ?thesis
      using Cons.IH [OF Cons.prems] by (simp only: nearest_loop_miss reachable_hits_miss)
  next
    case (Some h)
    show ?thesis
    proof (cases "hit_distance r h < m")
      case True
      then have fin: "hit_distance r h < PInf"
        using Cons.prems(2) by (rule fl_less_trans)
      have "snd (nearest_loop r (obj # os) (m, Some b))
          = snd (nearest_loop r os (hit_distance r h, Some h))"
        using Some True by (simp only: nearest_loop_closer)
      also have "\<dots> = least_first (hit_distance r) (h # reachable_hits r os)"
        using fin by (intro Cons.IH) simp_all
      also have "\<dots> = least_first (hit_distance r) (b # h # reachable_hits r os)"
        using True Cons.prems by (intro least_first_skip [symmetric]) simp
      finally show ?thesis using Some fin by (simp only: reachable_hits_near)
    next
      case False
      have "snd (nearest_loop r (obj # os) (m, Some b)) = snd (nearest_loop r os (m, Some b))"
        by (simp only: nearest_loop_not_closer [OF Some False])
      also have "\<dots> = least_first (hit_distance r) (b # reachable_hits r os)"
        using Cons.prems by (intro Cons.IH)
      finally have eq: "snd (nearest_loop r (obj # os) (m, Some b))
          = least_first (hit_distance r) (b # reachable_hits r os)" .
      show ?thesis
      proof (cases "hit_distance r h < PInf")
        case True
        have "least_first (hit_distance r) (b # h # reachable_hits r os)
            = least_first (hit_distance r) (b # reachable_hits r os)"
          using False True Cons.prems by (intro least_first_keep) simp_all
        with eq Some True show ?thesis by (simp only: reachable_hits_near)
      next
        case False
        with eq show ?thesis by (simp only: reachable_hits_far [OF Some False])
      qed
    qed
  qed
qed

lemma nearest_loop_None:
  "snd (nearest_loop r os (PInf, None)) = least_first (hit_distance r) (reachable_hits r os)"
proof (induction os)
  case Nil
  then show ?case by (simp add: reachable_hits_Nil least_first_Nil)
next
  case (Cons obj os)
  show ?case
  proof (cases "intersect obj r")
    case None
    with Cons show ?thesis by (simp only: nearest_loop_miss reachable_hits_miss)
  next
    case (Some h)
    show ?thesis
    proof (cases "hit_distance r h < PInf")
      case True
      have "snd (nearest_loop r (obj # os) (PInf, None))
          = snd (nearest_loop r os (hit_distance r h, Some h))"
        using Some True by (simp only: nearest_loop_closer)
      also have "\<dots> = least_first (hit_distance r) (h # reachable_hits r os)"
        using True by (intro nearest_loop_Some) simp_all
      finally show ?thesis using Some True by (simp only: reachable_hits_near)
    next
      case False
      with Cons show ?thesis
        by (simp only: nearest_loop_not_closer [OF Some False] reachable_hits_far [OF Some False])
    qed
  qed
qed

lemma fl_le_total: "(a::fl) < PInf \<Longrightarrow> b < PInf \<Longrightarrow> a \<le> b \<or> b \<le> a"
  by (cases a; cases b) auto

lemma least_exists:
  assumes "l \<noteq> []" "\<forall>x\<in>set l. k x < PInf"
  shows "\<exists>x\<in>set l. \<forall>y\<in>set l. k x \<le> k y"
  using assms
proof (induction l)
  case Nil
  then show ?case by simp
next
  case (Cons a l)
  show ?case
  proof (cases "l = []")
    case True
    with Cons.prems show ?thesis by (simp add: fl_le_refl)
  next
    case False
    with Cons obtain x where x: "x \<in> set l" "\<forall>y\<in>set l. k x \<le> k y" by auto
    from Cons.prems x(1) have "k a \<le> k x \<or> k x \<le> k a"
      by (intro fl_le_total) simp_all
    then show ?thesis
    proof
      assume ax: "k a \<le> k x"
      have "\<forall>y\<in>set (a # l). k a \<le> k y"
        using ax x(2) Cons.prems(2) by (auto intro: fl_le_trans fl_le_refl)
      then show ?thesis by auto
    next
      assume xa: "k x \<le> k a"
      with x show ?thesis by auto
    qed
  qed
qed

lemma least_first_None_iff:
  assumes "\<forall>x\<in>set l. k x < PInf"
  shows "least_first k l = None \<longleftrightarrow> l = []"
proof
  assume n: "least_first k l = None"
  show "l = []"
  proof (rule ccontr)
    assume "l \<noteq> []"
    from least_exists [OF this assms] n show False
      by (auto simp: least_first_def find_None_iff)
  qed
qed (simp add: least_first_Nil)

text \<open>No hit is resolved exactly when no object is hit at a distance below \<open>+\<infinity>\<close>.\<close>

lemma nearest_hit_None_iff: "nearest_hit r sc = None \<longleftrightarrow> reachable_hits r (objs sc) = []"
  unfolding nearest_hit_def nearest_loop_None
  by (rule least_first_None_iff) (simp add: reachable_hits_def)

lemma nearest_hit_least:
  assumes "nearest_hit r sc = Some h"
  shows "h \<in> set (reachable_hits r (objs sc))"
    and "\<forall>h'\<in>set (reachable_hits r (objs sc)). hit_distance r h \<le> hit_distance r h'"
  using assms
  by (auto simp: nearest_hit_def nearest_loop_None least_first_def find_Some_iff)

text \<open>
  C5, as the code has it.  For every scene and ray, the loop of \<^verbatim>\<open>trace\<close> tests every
  object's \<^verbatim>\<open>intersect\<close> and, among the hits whose distance from the ray origin
  (recomputed by \<^verbatim>\<open>distance\<close>) is below \<open>+\<infinity>\<close>, resolves the one of minimum distance; of
  several at that distance it resolves the one of the object that comes first in the
  scene, since only a strictly smaller distance replaces the current best.  A hit whose
  distance is NaN or \<open>+\<infinity>\<close> is never resolved.
\<close>

theorem nearest_hit_refines: "nearest_hit r sc = nearest_spec r sc"
  by (simp add: nearest_hit_def nearest_spec_def nearest_loop_None)

theorem nearest_hit_refines_witness:
  "reachable_hits ray_fwd [sphere_red, sphere_black] = [hit_red, hit_black]
   \<and> hit_distance ray_fwd hit_red = hit_distance ray_fwd hit_black
   \<and> nearest_hit ray_fwd \<lparr>objs = [sphere_red, sphere_black]\<rparr> = Some hit_red
   \<and> nearest_hit ray_fwd \<lparr>objs = [sphere_black, sphere_red]\<rparr> = Some hit_black"
proof -
  have rb: "reachable_hits ray_fwd [sphere_red, sphere_black] = [hit_red, hit_black]"
    by (simp add: reachable_hits_def hits_def map_filter_simps intersect_red intersect_black
        hit_distance_red hit_distance_black)
  have br: "reachable_hits ray_fwd [sphere_black, sphere_red] = [hit_black, hit_red]"
    by (simp add: reachable_hits_def hits_def map_filter_simps intersect_red intersect_black
        hit_distance_red hit_distance_black)
  have "nearest_hit ray_fwd \<lparr>objs = [sphere_red, sphere_black]\<rparr> = Some hit_red"
    using nearest_hit_refines [of ray_fwd "\<lparr>objs = [sphere_red, sphere_black]\<rparr>"]
    by (simp add: nearest_spec_def least_first_def rb hit_distance_red hit_distance_black)
  moreover have "nearest_hit ray_fwd \<lparr>objs = [sphere_black, sphere_red]\<rparr> = Some hit_black"
    using nearest_hit_refines [of ray_fwd "\<lparr>objs = [sphere_black, sphere_red]\<rparr>"]
    by (simp add: nearest_spec_def least_first_def br hit_distance_red hit_distance_black)
  ultimately show ?thesis
    using rb by (simp add: hit_distance_red hit_distance_black)
qed

text \<open>
  C5 as stated fails: a unit sphere whose centre is at \<open>-\<infinity>\<close> on the axis of the ray
  gives \<open>l_cos = +\<infinity>\<close> and \<open>l_sin_sqr = \<infinity> - \<infinity> = NaN\<close>, which is not greater than the squared
  radius; \<^verbatim>\<open>intersect\<close> returns a hit, whose position is NaN.  Its distance is NaN, the
  test \<^verbatim>\<open>distance < min_distance\<close> is false, and the loop resolves no hit although one
  object was hit.
\<close>

theorem nearest_hit_nan_counterexample:
  "intersect sphere_far ray_fwd = Some hit_far
   \<and> hit_distance ray_fwd hit_far = NaN
   \<and> nearest_hit ray_fwd \<lparr>objs = [sphere_far]\<rparr> = None"
  by (simp add: intersect_far hit_distance_far nearest_far)

section \<open>Termination and the depth of the recursion\<close>

lemma trace_counted_miss:
  "nearest_hit r sc = None \<Longrightarrow> trace_counted uninit r sc d = (splat (Fin 0), 0)"
  by (subst trace_counted.simps) simp

lemma trace_counted_exhausted:
  "nearest_hit r sc = Some h0 \<Longrightarrow> d \<le> 0 \<Longrightarrow>
   trace_counted uninit r sc d = (uninit + emission_color (hit_obj h0), 0)"
  by (subst trace_counted.simps) (simp add: Let_def hit_obj_orient)

lemma trace_counted_bounce:
  "nearest_hit r sc = Some h0 \<Longrightarrow> 0 < d \<Longrightarrow>
   trace_counted uninit r sc d =
     (fst (trace_counted uninit (reflect_ray r (orient r h0)) sc (d - 1))
        * surface_color (hit_obj h0) + splat (Fin 0.3) + emission_color (hit_obj h0),
      Suc (snd (trace_counted uninit (reflect_ray r (orient r h0)) sc (d - 1))))"
  by (subst trace_counted.simps) (simp add: Let_def hit_obj_orient split: prod.splits)

text \<open>The counting function computes the colour of \<^verbatim>\<open>trace\<close>.\<close>

lemma trace_counted_colour: "fst (trace_counted uninit r sc d) = trace uninit r sc d"
proof (induction uninit r sc d rule: trace.induct)
  case (1 uninit r sc d)
  show ?case
  proof (cases "nearest_hit r sc")
    case None
    then show ?thesis by (simp add: trace_counted_miss trace_miss)
  next
    case (Some h0)
    show ?thesis
    proof (cases "0 < d")
      case True
      from "1.IH" [OF Some refl True] Some True show ?thesis
        by (simp add: trace_counted_bounce trace_bounce)
    next
      case False
      with Some show ?thesis by (simp add: trace_counted_exhausted trace_exhausted)
    qed
  qed
qed

lemma trace_counted_depth: "int (snd (trace_counted uninit r sc d)) \<le> max 0 d"
proof (induction uninit r sc d rule: trace.induct)
  case (1 uninit r sc d)
  show ?case
  proof (cases "nearest_hit r sc")
    case None
    then show ?thesis by (simp add: trace_counted_miss)
  next
    case (Some h0)
    show ?thesis
    proof (cases "0 < d")
      case True
      from "1.IH" [OF Some refl True] Some True show ?thesis
        by (simp add: trace_counted_bounce)
    next
      case False
      with Some show ?thesis by (simp add: trace_counted_exhausted)
    qed
  qed
qed

lemma trace_counted_call:
  assumes "0 < snd (trace_counted uninit r sc d)"
  shows "0 < d \<and> (\<exists>h. nearest_hit r sc = Some h
           \<and> snd (trace_counted uninit r sc d)
               = Suc (snd (trace_counted uninit (reflect_ray r (orient r h)) sc (d - 1))))"
proof (cases "nearest_hit r sc")
  case None
  with assms show ?thesis by (simp add: trace_counted_miss)
next
  case (Some h0)
  show ?thesis
  proof (cases "0 < d")
    case True
    with Some show ?thesis by (simp add: trace_counted_bounce)
  next
    case False
    with Some assms show ?thesis by (simp add: trace_counted_exhausted)
  qed
qed

text \<open>
  C8.  \<^verbatim>\<open>trace\<close> terminates for every ray, scene and budget \<open>d \<ge> 0\<close>: it is a total
  function (its recursion is accepted on the measure \<open>max_depth\<close>), the function that
  counts the nesting of its activations computes the same colour, the nesting never
  exceeds \<open>d\<close>, an activation makes a recursive call only when its budget is strictly
  positive and passes \<open>budget - 1\<close>, and with budget 0 it makes none.
\<close>

theorem trace_depth_bounded:
  assumes "0 \<le> d"
  shows "fst (trace_counted uninit r sc d) = trace uninit r sc d
       \<and> int (snd (trace_counted uninit r sc d)) \<le> d
       \<and> (0 < snd (trace_counted uninit r sc d) \<longrightarrow>
            0 < d \<and> (\<exists>h. nearest_hit r sc = Some h
              \<and> snd (trace_counted uninit r sc d)
                  = Suc (snd (trace_counted uninit (reflect_ray r (orient r h)) sc (d - 1)))))
       \<and> snd (trace_counted uninit r sc 0) = 0"
proof (intro conjI impI)
  show "fst (trace_counted uninit r sc d) = trace uninit r sc d"
    by (rule trace_counted_colour)
  show "int (snd (trace_counted uninit r sc d)) \<le> d"
    using trace_counted_depth [of uninit r sc d] assms by simp
  show "snd (trace_counted uninit r sc 0) = 0"
    using trace_counted_depth [of uninit r sc 0] by simp
next
  assume a: "0 < snd (trace_counted uninit r sc d)"
  from trace_counted_call [OF a] show "0 < d"
    and "\<exists>h. nearest_hit r sc = Some h
          \<and> snd (trace_counted uninit r sc d)
              = Suc (snd (trace_counted uninit (reflect_ray r (orient r h)) sc (d - 1)))"
    by simp_all
qed

theorem trace_depth_bounded_witness:
  "(0 :: int) \<le> 5
   \<and> trace_counted ones ray_fwd \<lparr>objs = [sphere_black]\<rparr> 5
       = (Vector3 (Fin 0.3) (Fin 0.3) (Fin 0.3), 1)
   \<and> trace ones ray_fwd \<lparr>objs = [sphere_black]\<rparr> 5 = Vector3 (Fin 0.3) (Fin 0.3) (Fin 0.3)
   \<and> snd (trace_counted ones ray_fwd \<lparr>objs = [sphere_black]\<rparr> 0) = 0"
proof -
  have a: "(0 :: int) \<le> 5" by simp
  have c: "trace_counted ones ray_fwd \<lparr>objs = [sphere_black]\<rparr> 5
       = (Vector3 (Fin 0.3) (Fin 0.3) (Fin 0.3), 1)"
    by (simp add: trace_counted_bounce [OF nearest_black]
        trace_counted_miss [OF nearest_black_reflected])
      (simp add: hit_black_def sphere_black_def vec_eval)
  from trace_depth_bounded [OF a, of ones ray_fwd "\<lparr>objs = [sphere_black]\<rparr>"] c a
  show ?thesis by simp
qed

section \<open>A budget below zero\<close>








end
